theory Spec2Isabelle
  imports Main "HOL-Library.Sublist"
begin

section \<open>Values of the program\<close>

text \<open>
  A Python string is a sequence of Unicode code points. The messages of the bot are
  Cyrillic, so strings are modelled as lists of code points; \<open>u\<close> embeds an ASCII
  literal.
\<close>

type_synonym pystr = "nat list"

definition u :: "string \<Rightarrow> pystr" where
  "u s = map of_char s"

text \<open>\<open>str(n)\<close> for an integer: its decimal digits, with a minus sign when negative.\<close>

fun str_nat :: "nat \<Rightarrow> pystr" where
  "str_nat n = (if n < 10 then [48 + n] else str_nat (n div 10) @ [48 + n mod 10])"

declare str_nat.simps [simp del]

definition str_int :: "int \<Rightarrow> pystr" where
  "str_int i = (if i < 0 then 45 # str_nat (nat (- i)) else str_nat (nat i))"

text \<open>
  What \<open>response.json()\<close> yields: decoded JSON. Python's \<open>None\<close> is \<open>JNull\<close>; a
  \<open>dict\<close> is an association list read with \<open>map_of\<close>. JSON numbers with a fraction or
  an exponent (Python floats) are outside the model.
\<close>

datatype json =
    JNull
  | JBool bool
  | JInt int
  | JStr pystr
  | JList "json list"
  | JObj "(pystr \<times> json) list"

text \<open>Python truth value, as tested by \<open>if x\<close> and \<open>not x\<close>.\<close>

fun truthy :: "json \<Rightarrow> bool" where
  "truthy JNull = False"
| "truthy (JBool b) = b"
| "truthy (JInt i) = (i \<noteq> 0)"
| "truthy (JStr s) = (s \<noteq> [])"
| "truthy (JList xs) = (xs \<noteq> [])"
| "truthy (JObj kvs) = (kvs \<noteq> [])"

text \<open>
  Python's \<open>==\<close> on decoded JSON: \<open>True == 1\<close> and \<open>False == 0\<close> hold, lists are
  compared element by element, dicts as mappings (same keys, equal values), and values
  of different kinds are unequal.
\<close>

fun py_eq :: "json \<Rightarrow> json \<Rightarrow> bool" where
  "py_eq JNull JNull = True"
| "py_eq (JBool a) (JBool b) = (a = b)"
| "py_eq (JBool a) (JInt j) = ((if a then 1 else 0) = j)"
| "py_eq (JInt i) (JBool b) = (i = (if b then 1 else 0))"
| "py_eq (JInt i) (JInt j) = (i = j)"
| "py_eq (JStr s) (JStr t) = (s = t)"
| "py_eq (JList xs) (JList ys) = list_all2 py_eq xs ys"
| "py_eq (JObj kvs) (JObj kws) =
     (set (map fst kvs) = set (map fst kws) \<and>
      list_all (\<lambda>kv. list_ex (\<lambda>kw. fst kw = fst kv \<and> py_eq (snd kv) (snd kw)) kws) kvs)"
| "py_eq _ _ = False"

text \<open>Exceptions: the class, and the argument the exception was raised with.\<close>

datatype exn_class =
    BaseExc
  | HTTPError
  | RequestException
  | TelegramError
  | TypeError
  | KeyError
  | ValueError
  | UnboundLocalError
  | IndexError
  | SystemExit

text \<open>
  For an error raised by the interpreter or a library the argument is the offending key
  or variable name (or a short tag); the wording of those messages differs between
  versions and is never inspected by the program.
\<close>

datatype exn = Raise exn_class pystr

fun exn_cls :: "exn \<Rightarrow> exn_class" where
  "exn_cls (Raise c m) = c"

fun exn_arg :: "exn \<Rightarrow> pystr" where
  "exn_arg (Raise c m) = m"

text \<open>\<open>except Exception\<close> catches every class but \<open>SystemExit\<close>, which derives from
  \<open>BaseException\<close> only.\<close>

definition is_Exception :: "exn \<Rightarrow> bool" where
  "is_Exception e = (exn_cls e \<noteq> SystemExit)"

datatype level = DEBUG | INFO | ERROR | CRITICAL


section \<open>Constants of the module\<close>

definition RETRY_TIME :: nat where
  "RETRY_TIME = 600"

text \<open>The verdict texts of \<open>HOMEWORK_STATUSES\<close>, as code points. In English: "Work
  checked: the reviewer liked everything. Hooray!", "Work taken for checking by the
  reviewer.", "Work checked: the reviewer has remarks."\<close>

definition APPROVED_VERDICT :: pystr where
  "APPROVED_VERDICT = [1056, 1072, 1073, 1086, 1090, 1072, 32, 1087, 1088, 1086, 1074,
     1077, 1088, 1077, 1085, 1072, 58, 32, 1088, 1077, 1074, 1100, 1102, 1077, 1088, 1091,
     32, 1074, 1089, 1105, 32, 1087, 1086, 1085, 1088, 1072, 1074, 1080, 1083, 1086, 1089,
     1100, 46, 32, 1059, 1088, 1072, 33]"

definition REVIEWING_VERDICT :: pystr where
  "REVIEWING_VERDICT = [1056, 1072, 1073, 1086, 1090, 1072, 32, 1074, 1079, 1103, 1090,
     1072, 32, 1085, 1072, 32, 1087, 1088, 1086, 1074, 1077, 1088, 1082, 1091, 32, 1088,
     1077, 1074, 1100, 1102, 1077, 1088, 1086, 1084, 46]"

definition REJECTED_VERDICT :: pystr where
  "REJECTED_VERDICT = [1056, 1072, 1073, 1086, 1090, 1072, 32, 1087, 1088, 1086, 1074,
     1077, 1088, 1077, 1085, 1072, 58, 32, 1091, 32, 1088, 1077, 1074, 1100, 1102, 1077,
     1088, 1072, 32, 1077, 1089, 1090, 1100, 32, 1079, 1072, 1084, 1077, 1095, 1072, 1085,
     1080, 1103, 46]"

definition HOMEWORK_STATUSES :: "(pystr \<times> pystr) list" where
  "HOMEWORK_STATUSES =
     [(u ''approved'', APPROVED_VERDICT),
      (u ''reviewing'', REVIEWING_VERDICT),
      (u ''rejected'', REJECTED_VERDICT)]"

text \<open>The fixed parts of the log and chat messages, as code points, each with its
  place in the source and an English gloss.\<close>

definition msg_send_failed :: pystr where
  \<comment> \<open>\<open>send_message\<close>: "The bot could not send the message "\<close>
  "msg_send_failed = [1041, 1086, 1090, 32, 1085, 1077, 32, 1089, 1084, 1086, 1075, 32,
     1086, 1090, 1087, 1088, 1072, 1074, 1080, 1090, 1100, 32, 1089, 1086, 1086, 1073, 1097,
     1077, 1085, 1080, 1077, 32]"

definition msg_send_error :: pystr where
  \<comment> \<open>\<open>send_message\<close>: ". Error "\<close>
  "msg_send_error = [46, 32, 1054, 1096, 1080, 1073, 1082, 1072, 32]"

definition msg_sent :: pystr where
  \<comment> \<open>\<open>send_message\<close>: "The bot sent the message " and an opening double quote\<close>
  "msg_sent = [1041, 1086, 1090, 32, 1086, 1090, 1087, 1088, 1072, 1074, 1080, 1083, 32,
     1089, 1086, 1086, 1073, 1097, 1077, 1085, 1080, 1077, 32, 34]"

definition msg_api_code :: pystr where
  \<comment> \<open>\<open>get_api_answer\<close>: "API response code: "\<close>
  "msg_api_code = [1050, 1086, 1076, 32, 1086, 1090, 1074, 1077, 1090, 1072, 32, 65, 80,
     73, 58, 32]"

definition msg_api_empty :: pystr where
  \<comment> \<open>\<open>get_api_answer\<close>: "Received an empty response when calling the API"\<close>
  "msg_api_empty = [1055, 1086, 1083, 1091, 1095, 1077, 1085, 32, 1087, 1091, 1089, 1090,
     1086, 32, 1086, 1090, 1074, 1077, 1090, 32, 1087, 1088, 1080, 32, 1086, 1073, 1088,
     1072, 1097, 1077, 1085, 1080, 1080, 32, 1082, 32, 65, 80, 73]"

definition msg_resp_empty :: pystr where
  \<comment> \<open>\<open>check_response\<close>: "Received an empty response when calling the API"\<close>
  "msg_resp_empty = [1055, 1086, 1083, 1091, 1095, 1077, 1085, 32, 1087, 1091, 1089, 1090,
     1086, 1081, 32, 1086, 1090, 1074, 1077, 1090, 32, 1087, 1088, 1080, 32, 1086, 1073,
     1088, 1072, 1097, 1077, 1085, 1080, 1080, 32, 1082, 32, 65, 80, 73]"

definition msg_resp_bad :: pystr where
  \<comment> \<open>\<open>check_response\<close>: "Received an incorrect response when calling the API"\<close>
  "msg_resp_bad = [1055, 1086, 1083, 1091, 1095, 1077, 1085, 32, 1085, 1077, 1082, 1086,
     1088, 1088, 1077, 1090, 1085, 1099, 1081, 32, 1086, 1090, 1074, 1077, 1090, 32, 1087,
     1088, 1080, 32, 1086, 1073, 1088, 1097, 1072, 1077, 1085, 1080, 1080, 32, 1082, 32, 65,
     80, 73]"

definition msg_key_missing :: pystr where
  \<comment> \<open>both key loops: "Missing key " and an opening double quote\<close>
  "msg_key_missing = [1054, 1090, 1089, 1091, 1090, 1089, 1090, 1074, 1091, 1077, 1090, 32,
     1082, 1083, 1102, 1095, 32, 34]"

definition msg_in_response :: pystr where
  \<comment> \<open>\<open>check_response\<close>: a closing double quote and " in the API response"\<close>
  "msg_in_response = [34, 32, 1074, 32, 1086, 1090, 1074, 1077, 1090, 1077, 32, 65, 80, 73]"

definition msg_not_list :: pystr where
  \<comment> \<open>\<open>check_response\<close>: "The object under key "homeworks" is not a list"\<close>
  "msg_not_list = [1054, 1073, 1098, 1077, 1082, 1090, 32, 1087, 1086, 32, 1082, 1083,
     1102, 1095, 1091, 32, 34, 104, 111, 109, 101, 119, 111, 114, 107, 115, 34, 32, 1085,
     1077, 32, 1103, 1074, 1083, 1103, 1077, 1090, 1089, 1103, 32, 1089, 1087, 1080, 1089,
     1082, 1086, 1084]"

definition msg_in_homework :: pystr where
  \<comment> \<open>\<open>parse_status\<close>: a closing double quote and " in the object "homework""\<close>
  "msg_in_homework = [34, 32, 1074, 32, 1086, 1073, 1098, 1077, 1082, 1090, 1077, 32, 34,
     104, 111, 109, 101, 119, 111, 114, 107, 34]"

definition msg_no_name :: pystr where
  \<comment> \<open>\<open>parse_status\<close>: "The project name is missing"\<close>
  "msg_no_name = [1054, 1090, 1089, 1091, 1089, 1090, 1074, 1091, 1077, 1090, 32, 1080,
     1084, 1103, 32, 1087, 1088, 1086, 1077, 1082, 1090, 1072]"

definition msg_unknown_status :: pystr where
  \<comment> \<open>\<open>parse_status\<close>: "Unknown project status"\<close>
  "msg_unknown_status = [1053, 1077, 1080, 1079, 1074, 1077, 1089, 1090, 1085, 1099, 1081,
     32, 1089, 1090, 1072, 1090, 1091, 1089, 32, 1087, 1088, 1086, 1077, 1082, 1090, 1072]"

definition msg_changed :: pystr where
  \<comment> \<open>\<open>parse_status\<close>: "The review status of the work has changed " and an opening
     double quote\<close>
  "msg_changed = [1048, 1079, 1084, 1077, 1085, 1080, 1083, 1089, 1103, 32, 1089, 1090,
     1072, 1090, 1091, 1089, 32, 1087, 1088, 1086, 1074, 1077, 1088, 1082, 1080, 32, 1088,
     1072, 1073, 1086, 1090, 1099, 32, 34]"

definition msg_no_env :: pystr where
  \<comment> \<open>\<open>check_tokens\<close>: "A required environment variable is missing"\<close>
  "msg_no_env = [1054, 1090, 1089, 1091, 1090, 1089, 1090, 1074, 1091, 1077, 1090, 32,
     1086, 1073, 1103, 1079, 1072, 1090, 1077, 1083, 1100, 1085, 1072, 1103, 32, 1087, 1077,
     1088, 1077, 1084, 1077, 1085, 1085, 1072, 1103, 32, 1086, 1082, 1088, 1091, 1078, 1077,
     1085, 1080, 1103]"

definition msg_failure :: pystr where
  \<comment> \<open>\<open>main\<close>: "Program failure: "\<close>
  "msg_failure = [1057, 1073, 1086, 1081, 32, 1074, 32, 1088, 1072, 1073, 1086, 1090, 1077,
     32, 1087, 1088, 1086, 1075, 1088, 1072, 1084, 1084, 1099, 58, 32]"

definition msg_unchanged :: pystr where
  \<comment> \<open>\<open>main\<close>: "The status of the work has not changed"\<close>
  "msg_unchanged = [1057, 1090, 1072, 1090, 1091, 1089, 32, 1088, 1072, 1073, 1086, 1090,
     1099, 32, 1085, 1077, 32, 1080, 1079, 1084, 1077, 1085, 1080, 1083, 1089, 1103]"


section \<open>The world outside the program, and the program's state\<close>

text \<open>
  What \<open>requests.get\<close> returns, as far as the program looks at it: the status code,
  the truth value of the response object itself (tested by \<open>if not response\<close>; the HTTP
  library decides it) and the outcome of \<open>response.json()\<close>.
\<close>

record response =
  status_code :: int
  ok :: bool
  json_body :: "exn + json"

text \<open>
  The environment is a parameter of every operation: the three module-level tokens
  (\<open>None\<close> when the variable is not set), and the behaviour of the libraries and of the
  remote services. \<open>requests_get n t\<close> is the outcome of the \<open>n\<close>-th GET, sent with
  \<open>from_date = t\<close>; \<open>bot_send n m\<close> is the exception raised by the \<open>n\<close>-th
  \<open>bot.send_message\<close> with text \<open>m\<close>, if any; \<open>time_now n\<close> is the \<open>n\<close>-th reading of
  \<open>int(time.time())\<close>; \<open>new_bot\<close> is the exception raised by the constructor
  \<open>telegram.Bot\<close>, if any; \<open>str_of_exn\<close> is \<open>str(error)\<close> and \<open>format_json\<close> is the
  text an f-string inserts for a value that is not a string.
\<close>

record world =
  PRACTICUM_TOKEN :: "pystr option"
  TELEGRAM_TOKEN :: "pystr option"
  TELEGRAM_CHAT_ID :: "pystr option"
  new_bot :: "exn option"
  requests_get :: "nat \<Rightarrow> int \<Rightarrow> exn + response"
  bot_send :: "nat \<Rightarrow> pystr \<Rightarrow> exn option"
  time_now :: "nat \<Rightarrow> int"
  str_of_exn :: "exn \<Rightarrow> pystr"
  format_json :: "json \<Rightarrow> pystr"

text \<open>
  The state threaded through the program: the log lines written, the \<open>from_date\<close> of
  every GET performed, the text of every \<open>bot.send_message\<close> call, the number of clock
  readings, the seconds slept, and the two local variables of \<open>main\<close> that live across
  the loop (\<open>status\<close> is \<open>None\<close> while the variable is unbound).
\<close>

record state =
  logged :: "(level \<times> pystr) list"
  gets :: "int list"
  sends :: "pystr list"
  clock_reads :: nat
  slept :: nat
  current_timestamp :: int
  status :: "json option"

definition logger :: "level \<Rightarrow> pystr \<Rightarrow> state \<Rightarrow> state" where
  "logger l m s = s\<lparr>logged := logged s @ [(l, m)]\<rparr>"

definition time_time :: "world \<Rightarrow> state \<Rightarrow> int \<times> state" where
  "time_time w s = (time_now w (clock_reads s), s\<lparr>clock_reads := Suc (clock_reads s)\<rparr>)"

definition sleep :: "nat \<Rightarrow> state \<Rightarrow> state" where
  "sleep n s = s\<lparr>slept := slept s + n\<rparr>"


section \<open>Python operations on decoded JSON\<close>

text \<open>\<open>key in x\<close> for a string key: dict membership, list membership, substring test;
  any other value is not iterable.\<close>

fun py_contains :: "pystr \<Rightarrow> json \<Rightarrow> exn + bool" where
  "py_contains k (JObj kvs) = Inr (k \<in> set (map fst kvs))"
| "py_contains k (JList xs) = Inr (JStr k \<in> set xs)"
| "py_contains k (JStr t) = Inr (sublist k t)"
| "py_contains k _ = Inl (Raise TypeError (u ''not iterable''))"

text \<open>\<open>isinstance(x, dict)\<close>.\<close>

fun is_dict :: "json \<Rightarrow> bool" where
  "is_dict (JObj kvs) = True"
| "is_dict _ = False"

text \<open>\<open>x[key]\<close> for a string key: only a dict can be read that way.\<close>

fun py_getitem :: "json \<Rightarrow> pystr \<Rightarrow> exn + json" where
  "py_getitem (JObj kvs) k =
     (case map_of kvs k of None \<Rightarrow> Inl (Raise KeyError k) | Some v \<Rightarrow> Inr v)"
| "py_getitem _ k = Inl (Raise TypeError (u ''not subscriptable''))"

text \<open>\<open>x in HOMEWORK_STATUSES\<close>: lists and dicts cannot be hashed; the keys are
  strings, so only a string can be one of them.\<close>

fun in_statuses :: "json \<Rightarrow> exn + bool" where
  "in_statuses (JList xs) = Inl (Raise TypeError (u ''unhashable''))"
| "in_statuses (JObj kvs) = Inl (Raise TypeError (u ''unhashable''))"
| "in_statuses (JStr t) = Inr (t \<in> set (map fst HOMEWORK_STATUSES))"
| "in_statuses _ = Inr False"

text \<open>\<open>HOMEWORK_STATUSES.get(x)\<close>, \<open>None\<close> standing for Python's \<open>None\<close>.\<close>

fun statuses_get :: "json \<Rightarrow> pystr option" where
  "statuses_get (JStr t) = map_of HOMEWORK_STATUSES t"
| "statuses_get _ = None"

text \<open>What an f-string inserts for a value.\<close>

definition fmt :: "world \<Rightarrow> json \<Rightarrow> pystr" where
  "fmt w v = (case v of JStr t \<Rightarrow> t | _ \<Rightarrow> format_json w v)"

text \<open>
  The loop \<open>for key in [...]: if key not in obj: log, raise KeyError\<close> that opens both
  \<open>check_response\<close> and \<open>parse_status\<close>; \<open>ending\<close> is the tail of the message, which
  differs between the two.
\<close>

fun require_keys :: "pystr \<Rightarrow> pystr list \<Rightarrow> json \<Rightarrow> state \<Rightarrow> (exn + unit) \<times> state" where
  "require_keys ending [] obj s = (Inr (), s)"
| "require_keys ending (key # keys) obj s =
     (case py_contains key obj of
        Inl e \<Rightarrow> (Inl e, s)
      | Inr True \<Rightarrow> require_keys ending keys obj s
      | Inr False \<Rightarrow>
          (let message = msg_key_missing @ key @ ending
           in (Inl (Raise KeyError message), logger ERROR message s)))"


section \<open>The functions of \<open>homework.py\<close>\<close>

text \<open>
  \<open>send_message\<close>: the call to \<open>bot.send_message\<close> is recorded; a \<open>TelegramError\<close> is
  caught and logged, success is logged, any other exception leaves the function.
\<close>

definition send_message :: "world \<Rightarrow> pystr \<Rightarrow> state \<Rightarrow> (exn + unit) \<times> state" where
  "send_message w message s =
     (let n = length (sends s);
          s1 = s\<lparr>sends := sends s @ [message]\<rparr>
      in case bot_send w n message of
           Some error \<Rightarrow>
             if exn_cls error = TelegramError
             then (Inr (), logger ERROR
                     (msg_send_failed @ message @ msg_send_error @ str_of_exn w error) s1)
             else (Inl error, s1)
         | None \<Rightarrow> (Inr (), logger INFO (msg_sent @ message @ [34]) s1))"

text \<open>\<open>current_timestamp or int(time.time())\<close>: the clock is read only when the
  argument is zero.\<close>

definition request_time :: "world \<Rightarrow> int \<Rightarrow> state \<Rightarrow> int \<times> state" where
  "request_time w current_ts s = (if current_ts \<noteq> 0 then (current_ts, s) else time_time w s)"

text \<open>
  \<open>get_api_answer\<close>: the timestamp, the GET, the status check, the truth test of the
  response object and \<open>response.json()\<close>.
\<close>

definition get_api_answer :: "world \<Rightarrow> int \<Rightarrow> state \<Rightarrow> (exn + json) \<times> state" where
  "get_api_answer w current_ts s =
     (let (timestamp, s1) = request_time w current_ts s;
          n = length (gets s1);
          s2 = s1\<lparr>gets := gets s1 @ [timestamp]\<rparr>
      in case requests_get w n timestamp of
           Inl error \<Rightarrow> (Inl error, s2)
         | Inr response \<Rightarrow>
             if status_code response \<noteq> 200
             then (let message = msg_api_code @ str_int (status_code response)
                   in (Inl (Raise HTTPError message), logger ERROR message s2))
             else if \<not> ok response
             then (Inl (Raise BaseExc msg_api_empty), logger ERROR msg_api_empty s2)
             else (json_body response, s2))"

text \<open>\<open>check_response\<close>: falsy payload, payload that is not a dict, the two required
  keys in order, and the type of \<open>response['homeworks']\<close>.\<close>

definition check_response :: "json \<Rightarrow> state \<Rightarrow> (exn + json list) \<times> state" where
  "check_response response s =
     (if \<not> truthy response
      then (Inl (Raise BaseExc msg_resp_empty), logger ERROR msg_resp_empty s)
      else case response of
        JObj kvs \<Rightarrow>
          (case require_keys msg_in_response [u ''homeworks'', u ''current_date''] response s of
             (Inl error, s1) \<Rightarrow> (Inl error, s1)
           | (Inr _, s1) \<Rightarrow>
               (case py_getitem response (u ''homeworks'') of
                  Inl error \<Rightarrow> (Inl error, s1)
                | Inr (JList homeworks) \<Rightarrow> (Inr homeworks, s1)
                | Inr _ \<Rightarrow> (Inl (Raise TypeError msg_not_list), logger ERROR msg_not_list s1)))
      | _ \<Rightarrow> (Inl (Raise TypeError msg_resp_bad), logger ERROR msg_resp_bad s))"

text \<open>
  \<open>parse_status\<close>. The local variables \<open>homework_name\<close> and \<open>verdict\<close> are options:
  \<open>None\<close> while unbound, which is what the two logging branches leave them. The
  f-string reads \<open>homework_name\<close> first, then \<open>verdict\<close>; reading an unbound variable
  raises \<open>UnboundLocalError\<close>.
\<close>

definition parse_status :: "world \<Rightarrow> json \<Rightarrow> state \<Rightarrow> (exn + pystr) \<times> state" where
  "parse_status w homework s =
     (case require_keys msg_in_homework [u ''homework_name'', u ''status''] homework s of
        (Inl error, s1) \<Rightarrow> (Inl error, s1)
      | (Inr _, s1) \<Rightarrow>
     (case py_getitem homework (u ''homework_name'') of
        Inl error \<Rightarrow> (Inl error, s1)
      | Inr name \<Rightarrow>
     (let (homework_name, s2) =
            (if \<not> truthy name then (None, logger ERROR msg_no_name s1) else (Some name, s1))
      in case py_getitem homework (u ''status'') of
        Inl error \<Rightarrow> (Inl error, s2)
      | Inr homework_status \<Rightarrow>
     (case in_statuses homework_status of
        Inl error \<Rightarrow> (Inl error, s2)
      | Inr known \<Rightarrow>
     (let (verdict, s3) =
            (if \<not> known then (None, logger ERROR msg_unknown_status s2)
             else (Some (statuses_get homework_status), s2))
      in case homework_name of
        None \<Rightarrow> (Inl (Raise UnboundLocalError (u ''homework_name'')), s3)
      | Some n \<Rightarrow>
     (case verdict of
        None \<Rightarrow> (Inl (Raise UnboundLocalError (u ''verdict'')), s3)
      | Some v \<Rightarrow>
          (Inr (msg_changed @ fmt w n @ [34, 46, 32] @
                (case v of Some t \<Rightarrow> t | None \<Rightarrow> u ''None'')), s3)))))))"

text \<open>\<open>check_tokens\<close>: \<open>all([...])\<close> holds when each token is set and not empty.\<close>

definition token_truthy :: "pystr option \<Rightarrow> bool" where
  "token_truthy t = (case t of None \<Rightarrow> False | Some v \<Rightarrow> v \<noteq> [])"

definition check_tokens :: "world \<Rightarrow> state \<Rightarrow> bool \<times> state" where
  "check_tokens w s =
     (let result = (token_truthy (PRACTICUM_TOKEN w) \<and> token_truthy (TELEGRAM_TOKEN w)
                    \<and> token_truthy (TELEGRAM_CHAT_ID w))
      in if \<not> result then (result, logger CRITICAL msg_no_env s) else (result, s))"


section \<open>The loop of \<open>main\<close>\<close>

text \<open>\<open>homework[0]['status'] if homework else None\<close>, as both halves of the loop
  body compute it.\<close>

fun first_status :: "json list \<Rightarrow> exn + json" where
  "first_status [] = Inr JNull"
| "first_status (h # hs) = py_getitem h (u ''status'')"

text \<open>The body of \<open>try\<close>. \<open>sys.exit()\<close> raises \<open>SystemExit\<close>.\<close>

definition try_body :: "world \<Rightarrow> state \<Rightarrow> (exn + unit) \<times> state" where
  "try_body w s =
     (case check_tokens w s of
        (False, s1) \<Rightarrow> (Inl (Raise SystemExit []), s1)
      | (True, s1) \<Rightarrow>
     (case get_api_answer w (current_timestamp s1) s1 of
        (Inl error, s2) \<Rightarrow> (Inl error, s2)
      | (Inr response, s2) \<Rightarrow>
     (case check_response response s2 of
        (Inl error, s3) \<Rightarrow> (Inl error, s3)
      | (Inr homework, s3) \<Rightarrow>
     (case first_status homework of
        Inl error \<Rightarrow> (Inl error, s3)
      | Inr v \<Rightarrow> (Inr (), sleep RETRY_TIME (s3\<lparr>status := Some v\<rparr>))))))"

text \<open>The body of \<open>except Exception as error\<close>.\<close>

definition except_body :: "world \<Rightarrow> exn \<Rightarrow> state \<Rightarrow> (exn + unit) \<times> state" where
  "except_body w error s =
     (let message = msg_failure @ str_of_exn w error
      in case send_message w message (logger ERROR message s) of
           (Inl e, s1) \<Rightarrow> (Inl e, s1)
         | (Inr _, s1) \<Rightarrow> (Inr (), sleep RETRY_TIME s1))"

text \<open>
  The body of \<open>else\<close>, which runs after a \<open>try\<close> body that raised nothing and is not
  covered by the handler. In \<open>new_status and status != new_status\<close> the variable
  \<open>status\<close> is read only when \<open>new_status\<close> is truthy.
\<close>

definition else_body :: "world \<Rightarrow> state \<Rightarrow> (exn + unit) \<times> state" where
  "else_body w s =
     (let (t, s0) = time_time w s;
          s1 = s0\<lparr>current_timestamp := t\<rparr>
      in case get_api_answer w t s1 of
        (Inl error, s2) \<Rightarrow> (Inl error, s2)
      | (Inr response, s2) \<Rightarrow>
     (case check_response response s2 of
        (Inl error, s3) \<Rightarrow> (Inl error, s3)
      | (Inr homework, s3) \<Rightarrow>
     (case first_status homework of
        Inl error \<Rightarrow> (Inl error, s3)
      | Inr new_status \<Rightarrow>
          if \<not> truthy new_status then (Inr (), logger DEBUG msg_unchanged s3)
          else
     (case status s3 of
        None \<Rightarrow> (Inl (Raise UnboundLocalError (u ''status'')), s3)
      | Some old \<Rightarrow>
          if \<not> py_eq old new_status
          then
     (case homework of
        [] \<Rightarrow> (Inl (Raise IndexError (u ''list index out of range'')), s3)
      | h # hs \<Rightarrow>
     (case parse_status w h s3 of
        (Inl error, s4) \<Rightarrow> (Inl error, s4)
      | (Inr message, s4) \<Rightarrow> send_message w message s4))
          else (Inr (), logger DEBUG msg_unchanged s3)))))"

text \<open>One pass through \<open>while True\<close>: the handler takes what the \<open>try\<close> body raises
  when it is an \<open>Exception\<close>; what the handler or the \<open>else\<close> body raises leaves the
  loop.\<close>

definition cycle :: "world \<Rightarrow> state \<Rightarrow> (exn + unit) \<times> state" where
  "cycle w s =
     (case try_body w s of
        (Inl error, s1) \<Rightarrow>
          if is_Exception error then except_body w error s1 else (Inl error, s1)
      | (Inr _, s1) \<Rightarrow> else_body w s1)"

text \<open>\<open>while True\<close> never ends by itself, so the loop is run for a given number of
  passes: it is either still \<open>Running\<close> after them, or an exception has ended it.\<close>

datatype outcome = Running | Terminated exn

fun main_loop :: "nat \<Rightarrow> world \<Rightarrow> state \<Rightarrow> outcome \<times> state" where
  "main_loop 0 w s = (Running, s)"
| "main_loop (Suc n) w s =
     (case cycle w s of
        (Inl error, s1) \<Rightarrow> (Terminated error, s1)
      | (Inr _, s1) \<Rightarrow> main_loop n w s1)"

definition initial :: state where
  "initial = \<lparr>logged = [], gets = [], sends = [], clock_reads = 0, slept = 0,
              current_timestamp = 0, status = None\<rparr>"

text \<open>\<open>main\<close>: the bot is constructed, the clock is read, then the loop.\<close>

definition main :: "nat \<Rightarrow> world \<Rightarrow> outcome \<times> state" where
  "main n w =
     (case new_bot w of
        Some error \<Rightarrow> (Terminated error, initial)
      | None \<Rightarrow>
          (let (t, s) = time_time w initial
           in main_loop n w (s\<lparr>current_timestamp := t\<rparr>)))"


text \<open>
  Fetching, validating and reading the first status, in sequence: the three steps that
  the \<open>try\<close> body and the \<open>else\<close> body both run. It is used to state what a pass
  observed; \<open>try_body\<close> and \<open>else_body\<close> above spell the steps out as the source does.
\<close>

definition polled :: "world \<Rightarrow> int \<Rightarrow> state \<Rightarrow> (exn + json list \<times> json) \<times> state" where
  "polled w t s =
     (case get_api_answer w t s of
        (Inl error, s2) \<Rightarrow> (Inl error, s2)
      | (Inr response, s2) \<Rightarrow>
     (case check_response response s2 of
        (Inl error, s3) \<Rightarrow> (Inl error, s3)
      | (Inr homework, s3) \<Rightarrow>
     (case first_status homework of
        Inl error \<Rightarrow> (Inl error, s3)
      | Inr v \<Rightarrow> (Inr (homework, v), s3))))"


section \<open>Concrete environments\<close>

text \<open>Environments on which the theorems below are evaluated: all three tokens set,
  a clock that advances by the sleep interval, and the given answers of the API and of
  the chat transport.\<close>

definition demo_world ::
  "(nat \<Rightarrow> exn + response) \<Rightarrow> (nat \<Rightarrow> pystr \<Rightarrow> exn option) \<Rightarrow> world" where
  "demo_world http tg =
     \<lparr>PRACTICUM_TOKEN = Some (u ''practicum''), TELEGRAM_TOKEN = Some (u ''1234:token''),
      TELEGRAM_CHAT_ID = Some (u ''42''), new_bot = None,
      requests_get = (\<lambda>n t. http n), bot_send = tg,
      time_now = (\<lambda>n. 1000 + 600 * int n),
      str_of_exn = exn_arg, format_json = (\<lambda>v. u ''?'')\<rparr>"

definition ok_response :: "json \<Rightarrow> response" where
  "ok_response body = \<lparr>status_code = 200, ok = True, json_body = Inr body\<rparr>"

definition error_response :: "int \<Rightarrow> response" where
  "error_response code =
     \<lparr>status_code = code, ok = False, json_body = Inl (Raise ValueError (u ''no JSON''))\<rparr>"

definition homework_X :: "pystr \<Rightarrow> json" where
  "homework_X st = JObj [(u ''homework_name'', JStr (u ''X'')), (u ''status'', JStr st)]"

definition payload :: "json list \<Rightarrow> json" where
  "payload hs = JObj [(u ''homeworks'', JList hs), (u ''current_date'', JInt 0)]"

definition always_delivered :: "nat \<Rightarrow> pystr \<Rightarrow> exn option" where
  "always_delivered n m = None"

text \<open>The first fetch of a pass is answered with an empty homework list, the second
  with HTTP 500.\<close>

definition world_second_fetch_500 :: world where
  "world_second_fetch_500 =
     demo_world (\<lambda>n. if n = 0 then Inr (ok_response (payload [])) else Inr (error_response 500))
       always_delivered"


text \<open>Every fetch reports the same payload, with status \<open>approved\<close>.\<close>

definition world_unchanged :: world where
  "world_unchanged =
     demo_world (\<lambda>n. Inr (ok_response (payload [homework_X (u ''approved'')])))
       always_delivered"

text \<open>The API token is not set.\<close>

definition world_no_api_token :: world where
  "world_no_api_token = (world_unchanged\<lparr>PRACTICUM_TOKEN := None\<rparr>)"

text \<open>The bot token is not set, and the constructor \<open>telegram.Bot(token=None)\<close>
  raises.\<close>

definition world_no_bot_token :: world where
  "world_no_bot_token =
     (world_unchanged\<lparr>TELEGRAM_TOKEN := None,
                      new_bot := Some (Raise TypeError (u ''token''))\<rparr>)"

text \<open>The chat transport refuses every message with a \<open>TelegramError\<close>.\<close>

definition world_chat_down :: world where
  "world_chat_down =
     demo_world (\<lambda>n. Inr (error_response 404))
       (\<lambda>n m. Some (Raise TelegramError (u ''Timed out'')))"

text \<open>A 200 response whose body is the empty JSON object.\<close>

definition world_empty_body :: world where
  "world_empty_body = demo_world (\<lambda>n. Inr (ok_response (JObj []))) always_delivered"


section \<open>Auxiliary facts\<close>

lemma u_inj [simp]: "(u s = u t) = (s = t)"
  unfolding u_def by (simp add: inj_on_def)

lemma u_empty [simp]: "(u s = []) = (s = [])"
  by (simp add: u_def)

lemma map_of_key_in: "map_of kvs k = Some v \<Longrightarrow> k \<in> fst ` set kvs"
  by (metis map_of_eq_None_iff option.distinct(1))

lemma str_int_404: "str_int 404 = u ''404''"
  by code_simp

lemma str_int_500: "str_int 500 = u ''500''"
  by code_simp


section \<open>The API client\<close>

text \<open>
  Claim C6. Whenever the HTTP status of the response is not 200, \<open>get_api_answer\<close>
  raises \<open>HTTPError\<close> with the message "API response code: " followed by the decimal
  status code, so the message contains the code; the same message has been written to
  the log at level ERROR when the exception leaves the function, and the request is
  the only other thing that happened.
\<close>

theorem get_api_answer_non_200:
  assumes "request_time w current_ts s = (t, s1)"
    and "requests_get w (length (gets s1)) t = Inr r"
    and "status_code r \<noteq> 200"
  shows "get_api_answer w current_ts s =
           (Inl (Raise HTTPError (msg_api_code @ str_int (status_code r))),
            logger ERROR (msg_api_code @ str_int (status_code r)) (s1\<lparr>gets := gets s1 @ [t]\<rparr>))
         \<and> sublist (str_int (status_code r)) (msg_api_code @ str_int (status_code r))"
  using assms by (simp add: get_api_answer_def Let_def)

text \<open>Status 404: the message and the log line contain "404".\<close>

theorem get_api_answer_non_200_witness:
  "get_api_answer world_chat_down 1000 initial =
     (Inl (Raise HTTPError (msg_api_code @ u ''404'')),
      logger ERROR (msg_api_code @ u ''404'') (initial\<lparr>gets := [1000]\<rparr>))
   \<and> sublist (u ''404'') (msg_api_code @ u ''404'')"
  using get_api_answer_non_200 [of world_chat_down 1000 initial 1000 initial "error_response 404"]
  by (simp add: request_time_def world_chat_down_def demo_world_def error_response_def
      initial_def str_int_404)

text \<open>
  Claim C10. The test \<open>if not response\<close> looks at the response object, not at its body.
  A 200 response whose body is the empty JSON object \<open>{}\<close>, a falsy value, is returned
  as it is: no exception, no log line.
\<close>

theorem get_api_answer_empty_body:
  "get_api_answer world_empty_body 1000 initial = (Inr (JObj []), initial\<lparr>gets := [1000]\<rparr>)
   \<and> \<not> truthy (JObj [])"
  by (simp add: get_api_answer_def request_time_def world_empty_body_def demo_world_def
      ok_response_def initial_def)


text \<open>What the test does catch: a 200 response whose response object is itself falsy.
  Whether the HTTP library can produce one is the library's matter.\<close>

lemma get_api_answer_falsy_response:
  assumes "request_time w current_ts s = (t, s1)"
    and "requests_get w (length (gets s1)) t = Inr r"
    and "status_code r = 200" and "\<not> ok r"
  shows "get_api_answer w current_ts s =
           (Inl (Raise BaseExc msg_api_empty),
            logger ERROR msg_api_empty (s1\<lparr>gets := gets s1 @ [t]\<rparr>))"
  using assms by (simp add: get_api_answer_def Let_def)


section \<open>The payload validator\<close>

text \<open>
  Claim C5, as stated, fails on the empty object: both keys are absent from \<open>{}\<close>, but
  the truth test at the head of \<open>check_response\<close> comes first and raises the plain
  \<open>Exception\<close> for an empty response, not \<open>KeyError\<close>.
\<close>

theorem check_response_empty_dict:
  "check_response (JObj []) initial =
     (Inl (Raise BaseExc msg_resp_empty), logger ERROR msg_resp_empty initial)
   \<and> py_contains (u ''homeworks'') (JObj []) = Inr False
   \<and> BaseExc \<noteq> KeyError"
  by (simp add: check_response_def)

text \<open>
  Claim C5, amended. For every payload that is a non-empty object from which
  \<open>homeworks\<close> or \<open>current_date\<close> is absent, \<open>check_response\<close> logs at level ERROR and
  raises \<open>KeyError\<close> with the message "Missing key "KEY" in the API response", where
  the key named is \<open>homeworks\<close> if that one is absent and \<open>current_date\<close> otherwise.
  Every falsy payload is rejected before that with the plain \<open>Exception\<close> for an empty
  response, and every truthy payload that is not a dict with \<open>TypeError\<close>; each time
  the message raised has been logged at level ERROR and nothing else has changed.
\<close>

theorem check_response_missing_key:
  "(kvs \<noteq> [] \<and>
      (u ''homeworks'' \<notin> set (map fst kvs) \<or> u ''current_date'' \<notin> set (map fst kvs)) \<longrightarrow>
    check_response (JObj kvs) s =
      (let key = (if u ''homeworks'' \<notin> set (map fst kvs) then u ''homeworks''
                  else u ''current_date'');
           message = msg_key_missing @ key @ msg_in_response
       in (Inl (Raise KeyError message), logger ERROR message s)))
   \<and> (\<not> truthy p \<longrightarrow>
        check_response p s =
          (Inl (Raise BaseExc msg_resp_empty), logger ERROR msg_resp_empty s))
   \<and> (truthy p \<and> \<not> is_dict p \<longrightarrow>
        check_response p s =
          (Inl (Raise TypeError msg_resp_bad), logger ERROR msg_resp_bad s))"
proof (intro conjI impI)
  assume "kvs \<noteq> [] \<and>
      (u ''homeworks'' \<notin> set (map fst kvs) \<or> u ''current_date'' \<notin> set (map fst kvs))"
  then show "check_response (JObj kvs) s =
      (let key = (if u ''homeworks'' \<notin> set (map fst kvs) then u ''homeworks''
                  else u ''current_date'');
           message = msg_key_missing @ key @ msg_in_response
       in (Inl (Raise KeyError message), logger ERROR message s))"
    by (auto simp: check_response_def Let_def)
next
  assume "\<not> truthy p"
  then show "check_response p s =
      (Inl (Raise BaseExc msg_resp_empty), logger ERROR msg_resp_empty s)"
    by (simp add: check_response_def)
next
  assume "truthy p \<and> \<not> is_dict p"
  then show "check_response p s =
      (Inl (Raise TypeError msg_resp_bad), logger ERROR msg_resp_bad s)"
    by (cases p) (simp_all add: check_response_def)
qed

text \<open>A payload without \<open>current_date\<close>, one without \<open>homeworks\<close>, the empty list and
  a list that is not empty.\<close>

theorem check_response_missing_key_witness:
  "check_response (JObj [(u ''homeworks'', JList [])]) initial =
     (Inl (Raise KeyError (msg_key_missing @ u ''current_date'' @ msg_in_response)),
      logger ERROR (msg_key_missing @ u ''current_date'' @ msg_in_response) initial)
   \<and> check_response (JObj [(u ''current_date'', JInt 0)]) initial =
     (Inl (Raise KeyError (msg_key_missing @ u ''homeworks'' @ msg_in_response)),
      logger ERROR (msg_key_missing @ u ''homeworks'' @ msg_in_response) initial)
   \<and> check_response (JList []) initial =
     (Inl (Raise BaseExc msg_resp_empty), logger ERROR msg_resp_empty initial)
   \<and> check_response (JList [JInt 1]) initial =
     (Inl (Raise TypeError msg_resp_bad), logger ERROR msg_resp_bad initial)"
  using check_response_missing_key [of "[(u ''homeworks'', JList [])]" initial "JList []"]
    check_response_missing_key [of "[(u ''current_date'', JInt 0)]" initial "JList [JInt 1]"]
  by (simp add: Let_def)


section \<open>The message formatter\<close>

text \<open>
  Claim C4. For every record in which \<open>homework_name\<close> is a non-empty string and
  \<open>status\<close> is a key of \<open>HOMEWORK_STATUSES\<close>, \<open>parse_status\<close> returns "The review status
  of the work has changed "NAME". VERDICT" (in the source's Russian), the verdict
  being the catalogue's entry for the status, and logs nothing.
\<close>

theorem parse_status_well_formed:
  assumes "map_of kvs (u ''homework_name'') = Some (JStr name)" and "name \<noteq> []"
    and "map_of kvs (u ''status'') = Some (JStr st)"
    and "map_of HOMEWORK_STATUSES st = Some verdict"
  shows "parse_status w (JObj kvs) s = (Inr (msg_changed @ name @ [34, 46, 32] @ verdict), s)"
proof -
  have k: "u ''homework_name'' \<in> fst ` set kvs" "u ''status'' \<in> fst ` set kvs"
    using assms(1,3) by (auto dest: map_of_key_in)
  have m: "st \<in> fst ` set HOMEWORK_STATUSES"
    using assms(4) by (rule map_of_key_in)
  show ?thesis
    using assms k m by (simp add: parse_status_def fmt_def)
qed

text \<open>The record \<open>{homework_name: "X", status: "approved"}\<close> gives the string of the
  claim, written out in code points.\<close>

theorem parse_status_well_formed_witness:
  "parse_status world_unchanged (homework_X (u ''approved'')) initial =
     (Inr
       [1048, 1079, 1084, 1077, 1085, 1080, 1083, 1089, 1103, 32, 1089, 1090, 1072, 1090,
        1091, 1089, 32, 1087, 1088, 1086, 1074, 1077, 1088, 1082, 1080, 32, 1088, 1072,
        1073, 1086, 1090, 1099, 32, 34, 88, 34, 46, 32, 1056, 1072, 1073, 1086, 1090, 1072,
        32, 1087, 1088, 1086, 1074, 1077, 1088, 1077, 1085, 1072, 58, 32, 1088, 1077, 1074,
        1100, 1102, 1077, 1088, 1091, 32, 1074, 1089, 1105, 32, 1087, 1086, 1085, 1088,
        1072, 1074, 1080, 1083, 1086, 1089, 1100, 46, 32, 1059, 1088, 1072, 33],
      initial)"
  using parse_status_well_formed [of "[(u ''homework_name'', JStr (u ''X'')),
      (u ''status'', JStr (u ''approved''))]" "u ''X''" "u ''approved''" APPROVED_VERDICT
      world_unchanged initial]
  by (simp add: homework_X_def HOMEWORK_STATUSES_def)
     (simp add: u_def msg_changed_def APPROVED_VERDICT_def)

text \<open>
  Claim C9. For every record that has both keys and a hashable status (a string, as
  the data model has it, or a number, a boolean or null), if the name is empty or the
  status is not a key of \<open>HOMEWORK_STATUSES\<close> then \<open>parse_status\<close> logs one error for
  each of the two defects present, binds no variable in that branch, and raises
  \<open>UnboundLocalError\<close> when the f-string reads the first unbound variable; no message
  is returned.
\<close>

theorem parse_status_unassigned:
  assumes "map_of kvs (u ''homework_name'') = Some name"
    and "map_of kvs (u ''status'') = Some st"
    and "in_statuses st = Inr known"
    and "\<not> truthy name \<or> \<not> known"
  shows "parse_status w (JObj kvs) s =
           (Inl (Raise UnboundLocalError
                  (if \<not> truthy name then u ''homework_name'' else u ''verdict'')),
            s\<lparr>logged := logged s
                 @ (if \<not> truthy name then [(ERROR, msg_no_name)] else [])
                 @ (if \<not> known then [(ERROR, msg_unknown_status)] else [])\<rparr>)"
proof -
  have k: "u ''homework_name'' \<in> fst ` set kvs" "u ''status'' \<in> fst ` set kvs"
    using assms(1,2) by (auto dest: map_of_key_in)
  show ?thesis
    using assms k by (auto simp: parse_status_def logger_def)
qed

text \<open>An unknown status with a name, and an empty name with a known status.\<close>

theorem parse_status_unassigned_witness:
  "parse_status world_unchanged (homework_X (u ''resubmitted'')) initial =
     (Inl (Raise UnboundLocalError (u ''verdict'')),
      initial\<lparr>logged := [(ERROR, msg_unknown_status)]\<rparr>)
   \<and> parse_status world_unchanged
       (JObj [(u ''homework_name'', JStr []), (u ''status'', JStr (u ''approved''))]) initial =
     (Inl (Raise UnboundLocalError (u ''homework_name'')),
      initial\<lparr>logged := [(ERROR, msg_no_name)]\<rparr>)"
  using parse_status_unassigned [of "[(u ''homework_name'', JStr (u ''X'')),
      (u ''status'', JStr (u ''resubmitted''))]" "JStr (u ''X'')" "JStr (u ''resubmitted'')"
      False world_unchanged initial]
    parse_status_unassigned [of "[(u ''homework_name'', JStr []),
      (u ''status'', JStr (u ''approved''))]" "JStr []" "JStr (u ''approved'')"
      True world_unchanged initial]
  by (simp add: homework_X_def HOMEWORK_STATUSES_def initial_def)


section \<open>The notifier\<close>

text \<open>
  Claim C8. For every message, provided that what the chat transport raises, if
  anything, is a \<open>TelegramError\<close>, \<open>send_message\<close> returns normally: after a failure it
  has logged at level ERROR a line with the message and the text of the error, after a
  success it has logged at level INFO a line with the message.
\<close>

theorem send_message_never_raises:
  assumes "\<forall>e. bot_send w (length (sends s)) message = Some e \<longrightarrow> exn_cls e = TelegramError"
  shows "send_message w message s =
           (Inr (),
            logger
              (case bot_send w (length (sends s)) message of None \<Rightarrow> INFO | Some e \<Rightarrow> ERROR)
              (case bot_send w (length (sends s)) message of
                 None \<Rightarrow> msg_sent @ message @ [34]
               | Some e \<Rightarrow> msg_send_failed @ message @ msg_send_error @ str_of_exn w e)
              (s\<lparr>sends := sends s @ [message]\<rparr>))"
  using assms by (simp add: send_message_def Let_def split: option.splits)

text \<open>A transport that times out, and one that delivers.\<close>

theorem send_message_never_raises_witness:
  "send_message world_chat_down (u ''hello'') initial =
     (Inr (),
      logger ERROR (msg_send_failed @ u ''hello'' @ msg_send_error @ u ''Timed out'')
        (initial\<lparr>sends := [u ''hello'']\<rparr>))
   \<and> send_message world_unchanged (u ''hello'') initial =
     (Inr (), logger INFO (msg_sent @ u ''hello'' @ [34]) (initial\<lparr>sends := [u ''hello'']\<rparr>))"
  using send_message_never_raises [of world_chat_down initial "u ''hello''"]
    send_message_never_raises [of world_unchanged initial "u ''hello''"]
  by (simp add: world_chat_down_def world_unchanged_def demo_world_def initial_def
      always_delivered_def)


section \<open>Facts about the loop\<close>

lemma logged_self [simp]: "\<exists>l. s = s\<lparr>logged := l\<rparr>"
  by (rule exI [of _ "logged s"]) simp

lemma py_eq_refl: "py_eq v v"
proof (induction v)
  case (JList xs)
  then show ?case by (simp add: list_all2_same)
next
  case (JObj kvs)
  then show ?case by (auto simp: list_all_iff list_ex_iff)
qed simp_all

lemma get_api_answer_frame:
  assumes "get_api_answer w t s = (r, s')"
  shows "sends s' = sends s \<and> status s' = status s \<and> slept s' = slept s
         \<and> current_timestamp s' = current_timestamp s"
  using assms
  by (auto simp: get_api_answer_def request_time_def time_time_def logger_def Let_def
      split: if_splits sum.splits)

lemma require_keys_frame:
  "require_keys ending keys obj s = (r, s') \<Longrightarrow>
     (\<exists>l. s' = s\<lparr>logged := l\<rparr>) \<and> (r = Inr () \<longrightarrow> s' = s)"
proof (induction keys)
  case Nil
  then show ?case by auto
next
  case (Cons key keys)
  then show ?case
    by (auto simp: logger_def Let_def split: sum.splits bool.splits)
qed

lemma check_response_frame:
  assumes "check_response p s = (r, s')"
  shows "\<exists>l. s' = s\<lparr>logged := l\<rparr>"
  using assms
  by (auto simp: check_response_def logger_def simp del: require_keys.simps
      split: if_splits json.splits prod.splits sum.splits dest!: require_keys_frame)

lemma check_response_Inr:
  assumes "check_response p s = (Inr hs, s')"
  shows "s' = s"
  using assms
  by (auto simp: check_response_def simp del: require_keys.simps
      split: if_splits json.splits prod.splits sum.splits dest!: require_keys_frame)




lemma polled_frame:
  assumes "polled w t s = (r, s')"
  shows "sends s' = sends s \<and> status s' = status s \<and> slept s' = slept s
         \<and> current_timestamp s' = current_timestamp s"
proof -
  obtain a s2 where g: "get_api_answer w t s = (a, s2)" by fastforce
  note f = get_api_answer_frame [OF g]
  show ?thesis
  proof (cases a)
    case (Inl e)
    with assms g f show ?thesis by (simp add: polled_def)
  next
    case (Inr p)
    obtain b s3 where c: "check_response p s2 = (b, s3)" by fastforce
    from check_response_frame [OF c] obtain l where "s3 = s2\<lparr>logged := l\<rparr>" by blast
    moreover from assms g Inr c have "s' = s3"
      by (auto simp: polled_def split: sum.splits)
    ultimately show ?thesis using f by simp
  qed
qed

lemma else_body_polled:
  "else_body w s =
     (case polled w (fst (time_time w s))
             ((snd (time_time w s))\<lparr>current_timestamp := fst (time_time w s)\<rparr>) of
        (Inl error, s3) \<Rightarrow> (Inl error, s3)
      | (Inr (homework, new_status), s3) \<Rightarrow>
          if \<not> truthy new_status then (Inr (), logger DEBUG msg_unchanged s3)
          else (case status s3 of
                  None \<Rightarrow> (Inl (Raise UnboundLocalError (u ''status'')), s3)
                | Some old \<Rightarrow>
                    if \<not> py_eq old new_status
                    then (case homework of
                            [] \<Rightarrow> (Inl (Raise IndexError (u ''list index out of range'')), s3)
                          | h # hs \<Rightarrow>
                              (case parse_status w h s3 of
                                 (Inl error, s4) \<Rightarrow> (Inl error, s4)
                               | (Inr message, s4) \<Rightarrow> send_message w message s4))
                    else (Inr (), logger DEBUG msg_unchanged s3)))"
  by (simp add: else_body_def polled_def split: prod.splits sum.splits)

lemma try_body_polled:
  "try_body w s =
     (case check_tokens w s of
        (False, s1) \<Rightarrow> (Inl (Raise SystemExit []), s1)
      | (True, s1) \<Rightarrow>
          (case polled w (current_timestamp s1) s1 of
             (Inl error, s3) \<Rightarrow> (Inl error, s3)
           | (Inr (homework, v), s3) \<Rightarrow>
               (Inr (), sleep RETRY_TIME (s3\<lparr>status := Some v\<rparr>))))"
  by (simp add: try_body_def polled_def split: prod.splits sum.splits bool.splits)






lemma check_tokens_True:
  "check_tokens w s = (True, s1) \<Longrightarrow> s1 = s \<and> check_tokens w s' = (True, s')"
  by (auto simp: check_tokens_def Let_def split: if_splits)

lemma require_keys_fst:
  "fst (require_keys ending keys obj s) = fst (require_keys ending keys obj s')"
  by (induction keys) (simp_all add: Let_def split: sum.splits bool.splits)

lemma check_response_fst:
  "fst (check_response p s) = fst (check_response p s')"
proof -
  have "fst (require_keys e ks p s) = Inr () \<longleftrightarrow> fst (require_keys e ks p s') = Inr ()"
    for e ks
    using require_keys_fst [of e ks p s s'] by simp
  then show ?thesis
    using require_keys_fst [of msg_in_response "[u ''homeworks'', u ''current_date'']" p s s']
    by (auto simp: check_response_def simp del: require_keys.simps
        split: json.splits prod.splits sum.splits)
qed

lemma polled_same_answer:
  assumes "\<forall>n t. requests_get w n t = Inr r"
    and "polled w t s = (Inr (homework, v), s3)"
  shows "\<exists>s3'. polled w t' s' = (Inr (homework, v), s3')"
proof -
  from assms obtain p s2 where g: "get_api_answer w t s = (Inr p, s2)"
    by (auto simp: polled_def split: prod.splits sum.splits)
  with assms(1) have r: "status_code r = 200" "ok r" "json_body r = Inr p"
    by (auto simp: get_api_answer_def Let_def split: prod.splits if_splits)
  have "fst (get_api_answer w t' s') = Inr p"
    using assms(1) r by (simp add: get_api_answer_def Let_def split: prod.splits)
  then obtain s2' where g': "get_api_answer w t' s' = (Inr p, s2')"
    by (cases "get_api_answer w t' s'") simp
  from assms(2) g have c: "fst (check_response p s2) = Inr homework"
    and f: "first_status homework = Inr v"
    by (auto simp: polled_def split: prod.splits sum.splits)
  from c check_response_fst [of p s2' s2] obtain s3' where
    "check_response p s2' = (Inr homework, s3')"
    by (cases "check_response p s2'") simp
  with g' f show ?thesis by (simp add: polled_def)
qed

text \<open>When the API answers every request with the same response and the first fetch
  of a pass validates, the whole pass sends nothing and ends with the debug line.\<close>

lemma same_answer_silent_pass:
  assumes "\<forall>n t. requests_get w n t = Inr r"
    and "try_body w s = (Inr (), s1)"
  shows "\<exists>s2. cycle w s = (Inr (), logger DEBUG msg_unchanged s2) \<and> sends s2 = sends s"
proof -
  obtain ok s0 where "check_tokens w s = (ok, s0)" by fastforce
  with assms(2) have c0: "check_tokens w s = (True, s0)"
    by (auto simp: try_body_polled split: bool.splits)
  have c: "check_tokens w s = (True, s)"
    using check_tokens_True [OF c0] by simp
  obtain q s3 where p: "polled w (current_timestamp s) s = (q, s3)" by fastforce
  with assms(2) c obtain homework v where q: "q = Inr (homework, v)"
    and s1: "s1 = sleep RETRY_TIME (s3\<lparr>status := Some v\<rparr>)"
    by (auto simp: try_body_polled split: sum.splits)
  from polled_frame [OF p] have "sends s3 = sends s" by simp
  then have e1: "sends s1 = sends s" "status s1 = Some v"
    by (simp_all add: s1 sleep_def)
  obtain t s' where tt: "time_time w s1 = (t, s')" by fastforce
  from polled_same_answer [OF assms(1) p [unfolded q]]
  obtain s4 where p2: "polled w t (s'\<lparr>current_timestamp := t\<rparr>) = (Inr (homework, v), s4)"
    by blast
  from polled_frame [OF p2] tt e1 have e2: "sends s4 = sends s" "status s4 = Some v"
    by (auto simp: time_time_def)
  have "else_body w s1 = (Inr (), logger DEBUG msg_unchanged s4)"
    using tt p2 e2 by (simp add: else_body_polled py_eq_refl)
  with assms(2) e2 show ?thesis by (auto simp: cycle_def)
qed

text \<open>What the handler does cover: an \<open>Exception\<close> raised by the \<open>try\<close> body is
  logged, reported to the chat, and the pass ends normally after the sleep, provided the
  chat transport raises nothing but \<open>TelegramError\<close>.\<close>

lemma try_body_error_is_handled:
  assumes "try_body w s = (Inl error, s1)" and "is_Exception error"
    and "\<forall>e m. bot_send w (length (sends s1)) m = Some e \<longrightarrow> exn_cls e = TelegramError"
  shows "\<exists>s2. cycle w s = (Inr (), sleep RETRY_TIME s2)
           \<and> sends s2 = sends s1 @ [msg_failure @ str_of_exn w error]
           \<and> hd (drop (length (logged s1)) (logged s2))
               = (ERROR, msg_failure @ str_of_exn w error)"
  using assms
  by (auto simp: cycle_def except_body_def send_message_def logger_def Let_def
      split: option.splits)

lemmas run_defs =
  main_def cycle_def try_body_def else_body_def except_body_def check_tokens_def
  token_truthy_def get_api_answer_def request_time_def check_response_def parse_status_def
  send_message_def time_time_def logger_def sleep_def fmt_def is_Exception_def polled_def
  demo_world_def ok_response_def error_response_def payload_def homework_X_def
  always_delivered_def initial_def HOMEWORK_STATUSES_def RETRY_TIME_def Let_def


section \<open>The poll loop\<close>

text \<open>
  Claim C7. \<open>main\<close> constructs the bot before the loop, so before \<open>check_tokens\<close> is
  ever called. With the bot token unset the constructor raises, and \<open>main\<close> ends
  there: no GET has been made, but no critical line has been logged either, and the
  process does not leave through \<open>sys.exit()\<close>.
\<close>

theorem missing_bot_token_ends_main:
  "\<not> token_truthy (TELEGRAM_TOKEN world_no_bot_token)
   \<and> main (Suc 0) world_no_bot_token = (Terminated (Raise TypeError (u ''token'')), initial)
   \<and> logged initial = [] \<and> gets initial = []"
  by (simp add: world_no_bot_token_def world_unchanged_def demo_world_def token_truthy_def
      main_def initial_def)

text \<open>
  What the loop itself does: if any of the three tokens is missing (unset, or empty),
  then every pass, from any state, logs the critical line and ends the loop with
  \<open>SystemExit\<close>, changing nothing else, so that no GET is made. For \<open>main\<close> as a
  whole: it terminates, and it has made no GET.
\<close>

lemma missing_token_terminates:
  assumes "\<not> token_truthy (PRACTICUM_TOKEN w) \<or> \<not> token_truthy (TELEGRAM_TOKEN w)
           \<or> \<not> token_truthy (TELEGRAM_CHAT_ID w)"
  shows "main_loop (Suc n) w s = (Terminated (Raise SystemExit []), logger CRITICAL msg_no_env s)
         \<and> gets (logger CRITICAL msg_no_env s) = gets s
         \<and> (\<exists>e. fst (main (Suc n) w) = Terminated e) \<and> gets (snd (main (Suc n) w)) = []"
proof -
  have c: "check_tokens w s' = (False, logger CRITICAL msg_no_env s')" for s'
    using assms by (auto simp: check_tokens_def)
  have t: "try_body w s' = (Inl (Raise SystemExit []), logger CRITICAL msg_no_env s')" for s'
    by (simp add: try_body_def c)
  have l: "main_loop (Suc n) w s' =
             (Terminated (Raise SystemExit []), logger CRITICAL msg_no_env s')" for s'
    by (simp add: cycle_def t is_Exception_def)
  have m: "(\<exists>e. fst (main (Suc n) w) = Terminated e) \<and> gets (snd (main (Suc n) w)) = []"
    by (cases "new_bot w")
       (simp_all add: main_def l time_time_def initial_def logger_def del: main_loop.simps)
  show ?thesis
    using l [of s] m by (simp add: logger_def del: main_loop.simps)
qed

text \<open>The API token is not set: the first pass logs the critical line and exits; no
  GET has been made.\<close>

lemma missing_token_terminates_witness:
  "PRACTICUM_TOKEN world_no_api_token = None
   \<and> main (Suc 0) world_no_api_token =
       (Terminated (Raise SystemExit []),
        initial\<lparr>logged := [(CRITICAL, msg_no_env)], clock_reads := 1,
                current_timestamp := 1000\<rparr>)"
  using missing_token_terminates [of world_no_api_token 0
      "initial\<lparr>clock_reads := 1, current_timestamp := 1000\<rparr>"]
  by (simp add: world_no_api_token_def world_unchanged_def demo_world_def token_truthy_def
      main_def time_time_def initial_def logger_def del: main_loop.simps)

text \<open>
  Claim C3. In the \<open>else\<close> body, whenever the second fetch of the pass validates and
  the status of its first homework equals the recorded status, nothing is sent: the
  body returns normally, its only log line is the debug line "The status of the work
  has not changed", and the list of sent messages is as before.
\<close>

theorem unchanged_status_no_notification:
  assumes "time_time w s = (t, s0)"
    and "polled w t (s0\<lparr>current_timestamp := t\<rparr>) = (Inr (homework, new_status), s3)"
    and "status s = Some old"
    and "py_eq old new_status"
  shows "else_body w s = (Inr (), logger DEBUG msg_unchanged s3) \<and> sends s3 = sends s"
proof -
  from polled_frame [OF assms(2)] assms(1,3)
  have "status s3 = Some old" "sends s3 = sends s"
    by (auto simp: time_time_def)
  with assms show ?thesis
    by (simp add: else_body_polled)
qed

text \<open>The recorded status is \<open>approved\<close> and the API reports \<open>approved\<close> again.\<close>

theorem unchanged_status_no_notification_witness:
  "else_body world_unchanged
     \<lparr>logged = [], gets = [1000], sends = [], clock_reads = 1, slept = 600,
      current_timestamp = 1000, status = Some (JStr (u ''approved''))\<rparr> =
     (Inr (),
      \<lparr>logged = [(DEBUG, msg_unchanged)], gets = [1000, 1600], sends = [], clock_reads = 2,
       slept = 600, current_timestamp = 1600, status = Some (JStr (u ''approved''))\<rparr>)"
  using unchanged_status_no_notification [of world_unchanged
      "\<lparr>logged = [], gets = [1000], sends = [], clock_reads = 1, slept = 600,
        current_timestamp = 1000, status = Some (JStr (u ''approved''))\<rparr>"
      1600
      "\<lparr>logged = [], gets = [1000], sends = [], clock_reads = 2, slept = 600,
        current_timestamp = 1000, status = Some (JStr (u ''approved''))\<rparr>"
      "[homework_X (u ''approved'')]" "JStr (u ''approved'')"
      "\<lparr>logged = [], gets = [1000, 1600], sends = [], clock_reads = 2, slept = 600,
        current_timestamp = 1600, status = Some (JStr (u ''approved''))\<rparr>"
      "JStr (u ''approved'')"]
  by (simp add: world_unchanged_def polled_def get_api_answer_def request_time_def
      check_response_def time_time_def logger_def demo_world_def ok_response_def payload_def
      homework_X_def Let_def)




text \<open>
  Claim C1. An exception raised in the \<open>else\<close> body is outside the handler. The first
  fetch of the pass succeeds, the second is answered with HTTP 500: \<open>main\<close> ends with
  the \<open>HTTPError\<close>, and nothing has been sent to the chat.
\<close>

theorem second_fetch_error_ends_main:
  "main (Suc 0) world_second_fetch_500 =
     (Terminated (Raise HTTPError (msg_api_code @ u ''500'')),
      \<lparr>logged = [(ERROR, msg_api_code @ u ''500'')], gets = [1000, 1600], sends = [],
       clock_reads = 2, slept = 600, current_timestamp = 1600, status = Some JNull\<rparr>)"
  by (simp add: world_second_fetch_500_def run_defs str_int_500)

end
